theory Spec2Isabelle
  imports Complex_Main "HOL-Library.Log_Nat"
begin

section \<open>Python values, exceptions and the list store\<close>

text \<open>
  The exceptions a constructor of \<^verbatim>\<open>configuration_sam_hq.py\<close> can end in.
  \<open>ZeroDivisionError\<close> comes from \<^verbatim>\<open>//\<close>, \<open>OverflowError\<close> and \<open>ValueError\<close> from
  \<^verbatim>\<open>int * float\<close> and \<^verbatim>\<open>int(float)\<close>, \<open>TypeError\<close> from \<^verbatim>\<open>f(**x)\<close> when \<open>x\<close> is not a
  mapping. \<open>ConfigurationError\<close> is the exception the specification names; no statement
  of the source raises it.
\<close>

datatype error = ZeroDivisionError | OverflowError | ValueError | TypeError | ConfigurationError

text \<open>
  A Python \<^verbatim>\<open>float\<close> is an IEEE binary64 number: a finite value (kept as the rational it
  denotes; the two zeros are not told apart, as Python's \<^verbatim>\<open>==\<close> does not), an infinity
  or a NaN.
\<close>

datatype pyfloat = Finite rat | PosInf | NegInf | NaN

text \<open>Values of the extra keyword options, which the classes hand on without reading them.\<close>

datatype pyval = PNone | PBool bool | PInt int | PFloat pyfloat | PStr string | PList "pyval list"

type_synonym kwargs = "(string \<times> pyval) list"

text \<open>
  A Python list is an object: a field holding a list holds a reference to it, and the
  store maps each reference to the list's current elements.
\<close>

type_synonym ref = nat

type_synonym store = "ref \<rightharpoonup> int list"

definition py_list_append :: "store \<Rightarrow> ref \<Rightarrow> int \<Rightarrow> store" where
  \<comment> \<open>\<^verbatim>\<open>xs.append(x)\<close>: the object behind the reference changes in place.\<close>
  "py_list_append s r x = (case s r of None \<Rightarrow> s | Some xs \<Rightarrow> s(r \<mapsto> xs @ [x]))"

definition arg_or_default :: "'a \<Rightarrow> 'a option \<Rightarrow> 'a" where
  \<comment> \<open>A parameter with a default: the default when the caller does not pass it.\<close>
  "arg_or_default d a = (case a of None \<Rightarrow> d | Some v \<Rightarrow> v)"

subsection \<open>Integer floor division\<close>

definition py_floordiv :: "int \<Rightarrow> int \<Rightarrow> error + int" where
  \<comment> \<open>\<^verbatim>\<open>a // b\<close> on \<^verbatim>\<open>int\<close>: rounds toward minus infinity, raises on a zero divisor.\<close>
  "py_floordiv a b = (if b = 0 then Inl ZeroDivisionError else Inr (a div b))"

subsection \<open>Binary64 arithmetic\<close>

definition pow2 :: "int \<Rightarrow> rat" where
  "pow2 k = (if 0 \<le> k then of_int (2 ^ nat k) else 1 / of_int (2 ^ nat (- k)))"

definition floor_log2 :: "rat \<Rightarrow> int" where
  \<comment> \<open>For \<open>0 < a\<close>, the \<open>e\<close> with \<open>2^e \<le> a < 2^(e+1)\<close>.\<close>
  "floor_log2 a = (if 1 \<le> a then bitlen \<lfloor>a\<rfloor> - 1 else - bitlen (\<lceil>1 / a\<rceil> - 1))"

definition round_half_even :: "rat \<Rightarrow> int" where
  "round_half_even q =
     (let f = \<lfloor>q\<rfloor>; r = q - of_int f
      in if r < 1 / 2 then f else if 1 / 2 < r then f + 1 else if even f then f else f + 1)"

definition round_to_double :: "rat \<Rightarrow> pyfloat" where
  \<comment> \<open>Round to nearest, ties to even, with 53 significant bits, exponents from -1074,
      and overflow to infinity.\<close>
  "round_to_double q =
     (if q = 0 then Finite 0
      else let a = \<bar>q\<bar>;
               p = max (floor_log2 a - 52) (- 1074);
               v = of_int (round_half_even (a / pow2 p)) * pow2 p
           in if pow2 1024 \<le> v then (if 0 < q then PosInf else NegInf)
              else Finite (if 0 < q then v else - v))"

definition float_lit :: "rat \<Rightarrow> pyfloat" where
  \<comment> \<open>A float literal: the double nearest to the decimal written.\<close>
  "float_lit q = round_to_double q"

definition py_float_of_int :: "int \<Rightarrow> error + pyfloat" where
  \<comment> \<open>The conversion \<^verbatim>\<open>int * float\<close> starts with; an \<^verbatim>\<open>int\<close> beyond the doubles raises.\<close>
  "py_float_of_int i =
     (case round_to_double (of_int i) of Finite q \<Rightarrow> Inr (Finite q) | _ \<Rightarrow> Inl OverflowError)"

fun float_mul :: "pyfloat \<Rightarrow> pyfloat \<Rightarrow> pyfloat" where
  "float_mul NaN _ = NaN"
| "float_mul _ NaN = NaN"
| "float_mul (Finite a) (Finite b) = round_to_double (a * b)"
| "float_mul (Finite a) PosInf = (if a = 0 then NaN else if 0 < a then PosInf else NegInf)"
| "float_mul (Finite a) NegInf = (if a = 0 then NaN else if 0 < a then NegInf else PosInf)"
| "float_mul PosInf (Finite b) = (if b = 0 then NaN else if 0 < b then PosInf else NegInf)"
| "float_mul NegInf (Finite b) = (if b = 0 then NaN else if 0 < b then NegInf else PosInf)"
| "float_mul PosInf PosInf = PosInf"
| "float_mul PosInf NegInf = NegInf"
| "float_mul NegInf PosInf = NegInf"
| "float_mul NegInf NegInf = PosInf"

definition py_mul_int_float :: "int \<Rightarrow> pyfloat \<Rightarrow> error + pyfloat" where
  \<comment> \<open>\<^verbatim>\<open>i * x\<close> with \<open>i\<close> an \<^verbatim>\<open>int\<close> and \<open>x\<close> a \<^verbatim>\<open>float\<close>.\<close>
  "py_mul_int_float i x =
     (case py_float_of_int i of Inl e \<Rightarrow> Inl e | Inr y \<Rightarrow> Inr (float_mul y x))"

definition trunc_toward_zero :: "rat \<Rightarrow> int" where
  "trunc_toward_zero q = (if 0 \<le> q then \<lfloor>q\<rfloor> else \<lceil>q\<rceil>)"

fun py_int :: "pyfloat \<Rightarrow> error + int" where
  \<comment> \<open>\<^verbatim>\<open>int(x)\<close> on a \<^verbatim>\<open>float\<close>.\<close>
  "py_int (Finite q) = Inr (trunc_toward_zero q)"
| "py_int PosInf = Inl OverflowError"
| "py_int NegInf = Inl OverflowError"
| "py_int NaN = Inl ValueError"

fun py_round :: "pyfloat \<Rightarrow> error + int" where
  \<comment> \<open>\<^verbatim>\<open>round(x)\<close> on a \<^verbatim>\<open>float\<close>: to the nearest integer, ties to even. The source never
      calls it; the specification's text for \<open>mlp_dim\<close> does.\<close>
  "py_round (Finite q) = Inr (round_half_even q)"
| "py_round PosInf = Inl OverflowError"
| "py_round NegInf = Inl OverflowError"
| "py_round NaN = Inl ValueError"

subsection \<open>The base configuration layer\<close>

definition PretrainedConfig_init :: "kwargs \<Rightarrow> kwargs" where
  \<comment> \<open>Modelled from the spec: \<^verbatim>\<open>PretrainedConfig.__init__\<close> is not in this file. The
      specification has each class pass its extra named options to the base layer, which
      keeps them as opaque pass-through data and has no error condition.\<close>
  "PretrainedConfig_init kw = kw"

section \<open>SAMHQPromptEncoderConfig\<close>

record SAMHQPromptEncoderConfig =
  base_kwargs :: kwargs
  hidden_size :: int
  image_size :: int
  patch_size :: int
  image_embedding_size :: int
  mask_input_channels :: int
  num_point_embeddings :: int
  hidden_act :: string
  layer_norm_eps :: pyfloat

text \<open>The keyword arguments of a call: \<open>None\<close> for a parameter the caller leaves out.\<close>

record SAMHQPromptEncoderConfig_args =
  hidden_size :: "int option"
  image_size :: "int option"
  patch_size :: "int option"
  mask_input_channels :: "int option"
  num_point_embeddings :: "int option"
  hidden_act :: "string option"
  layer_norm_eps :: "pyfloat option"
  kwargs :: kwargs

definition SAMHQPromptEncoderConfig_no_args :: SAMHQPromptEncoderConfig_args where
  "SAMHQPromptEncoderConfig_no_args =
     \<lparr>SAMHQPromptEncoderConfig_args.hidden_size = None,
      SAMHQPromptEncoderConfig_args.image_size = None,
      SAMHQPromptEncoderConfig_args.patch_size = None,
      SAMHQPromptEncoderConfig_args.mask_input_channels = None,
      SAMHQPromptEncoderConfig_args.num_point_embeddings = None,
      SAMHQPromptEncoderConfig_args.hidden_act = None,
      SAMHQPromptEncoderConfig_args.layer_norm_eps = None,
      SAMHQPromptEncoderConfig_args.kwargs = []\<rparr>"

definition SAMHQPromptEncoderConfig_init ::
  "SAMHQPromptEncoderConfig_args \<Rightarrow> error + SAMHQPromptEncoderConfig" where
  "SAMHQPromptEncoderConfig_init a =
     (let hidden_size' = arg_or_default 256 (SAMHQPromptEncoderConfig_args.hidden_size a);
          image_size' = arg_or_default 1024 (SAMHQPromptEncoderConfig_args.image_size a);
          patch_size' = arg_or_default 16 (SAMHQPromptEncoderConfig_args.patch_size a);
          mask_input_channels' =
            arg_or_default 16 (SAMHQPromptEncoderConfig_args.mask_input_channels a);
          num_point_embeddings' =
            arg_or_default 4 (SAMHQPromptEncoderConfig_args.num_point_embeddings a);
          hidden_act' = arg_or_default ''gelu'' (SAMHQPromptEncoderConfig_args.hidden_act a);
          layer_norm_eps' =
            arg_or_default (float_lit (1 / 1000000))
              (SAMHQPromptEncoderConfig_args.layer_norm_eps a);
          base = PretrainedConfig_init (SAMHQPromptEncoderConfig_args.kwargs a)
      in case py_floordiv image_size' patch_size' of
           Inl e \<Rightarrow> Inl e
         | Inr q \<Rightarrow>
             Inr \<lparr>SAMHQPromptEncoderConfig.base_kwargs = base,
                  SAMHQPromptEncoderConfig.hidden_size = hidden_size',
                  SAMHQPromptEncoderConfig.image_size = image_size',
                  SAMHQPromptEncoderConfig.patch_size = patch_size',
                  SAMHQPromptEncoderConfig.image_embedding_size = q,
                  SAMHQPromptEncoderConfig.mask_input_channels = mask_input_channels',
                  SAMHQPromptEncoderConfig.num_point_embeddings = num_point_embeddings',
                  SAMHQPromptEncoderConfig.hidden_act = hidden_act',
                  SAMHQPromptEncoderConfig.layer_norm_eps = layer_norm_eps'\<rparr>)"

section \<open>SAMHQMaskDecoderConfig\<close>

record SAMHQMaskDecoderConfig =
  base_kwargs :: kwargs
  vision_encoder_dim :: int
  hidden_size :: int
  hidden_act :: string
  mlp_dim :: int
  num_hidden_layers :: int
  num_attention_heads :: int
  attention_downsam_hqple_rate :: int
  num_multimask_outputs :: int
  iou_head_depth :: int
  iou_head_hidden_dim :: int
  layer_norm_eps :: pyfloat

record SAMHQMaskDecoderConfig_args =
  hidden_size :: "int option"
  hidden_act :: "string option"
  mlp_dim :: "int option"
  num_hidden_layers :: "int option"
  num_attention_heads :: "int option"
  attention_downsam_hqple_rate :: "int option"
  num_multimask_outputs :: "int option"
  iou_head_depth :: "int option"
  iou_head_hidden_dim :: "int option"
  layer_norm_eps :: "pyfloat option"
  vision_encoder_dim :: "int option"
  kwargs :: kwargs

definition SAMHQMaskDecoderConfig_no_args :: SAMHQMaskDecoderConfig_args where
  "SAMHQMaskDecoderConfig_no_args =
     \<lparr>SAMHQMaskDecoderConfig_args.hidden_size = None,
      SAMHQMaskDecoderConfig_args.hidden_act = None,
      SAMHQMaskDecoderConfig_args.mlp_dim = None,
      SAMHQMaskDecoderConfig_args.num_hidden_layers = None,
      SAMHQMaskDecoderConfig_args.num_attention_heads = None,
      SAMHQMaskDecoderConfig_args.attention_downsam_hqple_rate = None,
      SAMHQMaskDecoderConfig_args.num_multimask_outputs = None,
      SAMHQMaskDecoderConfig_args.iou_head_depth = None,
      SAMHQMaskDecoderConfig_args.iou_head_hidden_dim = None,
      SAMHQMaskDecoderConfig_args.layer_norm_eps = None,
      SAMHQMaskDecoderConfig_args.vision_encoder_dim = None,
      SAMHQMaskDecoderConfig_args.kwargs = []\<rparr>"

definition SAMHQMaskDecoderConfig_init ::
  "SAMHQMaskDecoderConfig_args \<Rightarrow> error + SAMHQMaskDecoderConfig" where
  "SAMHQMaskDecoderConfig_init a =
     (let hidden_size' = arg_or_default 256 (SAMHQMaskDecoderConfig_args.hidden_size a);
          hidden_act' = arg_or_default ''relu'' (SAMHQMaskDecoderConfig_args.hidden_act a);
          mlp_dim' = arg_or_default 2048 (SAMHQMaskDecoderConfig_args.mlp_dim a);
          num_hidden_layers' = arg_or_default 2 (SAMHQMaskDecoderConfig_args.num_hidden_layers a);
          num_attention_heads' = arg_or_default 8 (SAMHQMaskDecoderConfig_args.num_attention_heads a);
          attention_downsam_hqple_rate' = arg_or_default 2 (SAMHQMaskDecoderConfig_args.attention_downsam_hqple_rate a);
          num_multimask_outputs' = arg_or_default 3 (SAMHQMaskDecoderConfig_args.num_multimask_outputs a);
          iou_head_depth' = arg_or_default 3 (SAMHQMaskDecoderConfig_args.iou_head_depth a);
          iou_head_hidden_dim' = arg_or_default 256 (SAMHQMaskDecoderConfig_args.iou_head_hidden_dim a);
          layer_norm_eps' = arg_or_default (float_lit (1 / 1000000)) (SAMHQMaskDecoderConfig_args.layer_norm_eps a);
          vision_encoder_dim' = arg_or_default 768 (SAMHQMaskDecoderConfig_args.vision_encoder_dim a);
          base = PretrainedConfig_init (SAMHQMaskDecoderConfig_args.kwargs a)
      in Inr \<lparr>SAMHQMaskDecoderConfig.base_kwargs = base,
               SAMHQMaskDecoderConfig.vision_encoder_dim = vision_encoder_dim',
               SAMHQMaskDecoderConfig.hidden_size = hidden_size',
               SAMHQMaskDecoderConfig.hidden_act = hidden_act',
               SAMHQMaskDecoderConfig.mlp_dim = mlp_dim',
               SAMHQMaskDecoderConfig.num_hidden_layers = num_hidden_layers',
               SAMHQMaskDecoderConfig.num_attention_heads = num_attention_heads',
               SAMHQMaskDecoderConfig.attention_downsam_hqple_rate = attention_downsam_hqple_rate',
               SAMHQMaskDecoderConfig.num_multimask_outputs = num_multimask_outputs',
               SAMHQMaskDecoderConfig.iou_head_depth = iou_head_depth',
               SAMHQMaskDecoderConfig.iou_head_hidden_dim = iou_head_hidden_dim',
               SAMHQMaskDecoderConfig.layer_norm_eps = layer_norm_eps'\<rparr>)"

definition SAMHQMaskDecoderConfig_attrs :: "SAMHQMaskDecoderConfig \<Rightarrow> (string \<times> pyval) list" where
  \<comment> \<open>The attributes the constructor assigns (\<^verbatim>\<open>self.name = ...\<close>), under the names it
      assigns them to, in its order.\<close>
  "SAMHQMaskDecoderConfig_attrs c =
     [(''vision_encoder_dim'', PInt (SAMHQMaskDecoderConfig.vision_encoder_dim c)),
      (''hidden_size'', PInt (SAMHQMaskDecoderConfig.hidden_size c)),
      (''hidden_act'', PStr (SAMHQMaskDecoderConfig.hidden_act c)),
      (''mlp_dim'', PInt (SAMHQMaskDecoderConfig.mlp_dim c)),
      (''num_hidden_layers'', PInt (SAMHQMaskDecoderConfig.num_hidden_layers c)),
      (''num_attention_heads'', PInt (SAMHQMaskDecoderConfig.num_attention_heads c)),
      (''attention_downsam_hqple_rate'', PInt (SAMHQMaskDecoderConfig.attention_downsam_hqple_rate c)),
      (''num_multimask_outputs'', PInt (SAMHQMaskDecoderConfig.num_multimask_outputs c)),
      (''iou_head_depth'', PInt (SAMHQMaskDecoderConfig.iou_head_depth c)),
      (''iou_head_hidden_dim'', PInt (SAMHQMaskDecoderConfig.iou_head_hidden_dim c)),
      (''layer_norm_eps'', PFloat (SAMHQMaskDecoderConfig.layer_norm_eps c))]"

section \<open>SAMHQVisionConfig\<close>

text \<open>
  The default of \<open>global_attn_indexes\<close> is the list \<^verbatim>\<open>[2, 5, 8, 11]\<close> in the signature of
  \<^verbatim>\<open>__init__\<close>. Python evaluates a default once, when the \<^verbatim>\<open>def\<close> statement runs: the
  module holds one list object, and every call that leaves the parameter out receives a
  reference to it.
\<close>

definition default_global_attn_indexes :: ref where
  "default_global_attn_indexes = 0"

definition module_store :: store where
  \<comment> \<open>The store once the module is loaded.\<close>
  "module_store = [default_global_attn_indexes \<mapsto> [2, 5, 8, 11]]"

record SAMHQVisionConfig =
  base_kwargs :: kwargs
  hidden_size :: int
  output_channels :: int
  num_hidden_layers :: int
  num_attention_heads :: int
  num_channels :: int
  image_size :: int
  patch_size :: int
  hidden_act :: string
  layer_norm_eps :: pyfloat
  attention_dropout :: pyfloat
  initializer_range :: pyfloat
  qkv_bias :: bool
  mlp_ratio :: pyfloat
  use_abs_pos :: bool
  use_rel_pos :: bool
  window_size :: int
  global_attn_indexes :: ref
  num_pos_feats :: int
  mlp_dim :: int

text \<open>For \<open>mlp_dim\<close>, whose default is \<^verbatim>\<open>None\<close>, \<open>None\<close> is Python's \<^verbatim>\<open>None\<close>.\<close>

record SAMHQVisionConfig_args =
  hidden_size :: "int option"
  output_channels :: "int option"
  num_hidden_layers :: "int option"
  num_attention_heads :: "int option"
  num_channels :: "int option"
  image_size :: "int option"
  patch_size :: "int option"
  hidden_act :: "string option"
  layer_norm_eps :: "pyfloat option"
  attention_dropout :: "pyfloat option"
  initializer_range :: "pyfloat option"
  qkv_bias :: "bool option"
  mlp_ratio :: "pyfloat option"
  use_abs_pos :: "bool option"
  use_rel_pos :: "bool option"
  window_size :: "int option"
  global_attn_indexes :: "ref option"
  num_pos_feats :: "int option"
  mlp_dim :: "int option"
  kwargs :: kwargs

definition SAMHQVisionConfig_no_args :: SAMHQVisionConfig_args where
  "SAMHQVisionConfig_no_args =
     \<lparr>SAMHQVisionConfig_args.hidden_size = None,
      SAMHQVisionConfig_args.output_channels = None,
      SAMHQVisionConfig_args.num_hidden_layers = None,
      SAMHQVisionConfig_args.num_attention_heads = None,
      SAMHQVisionConfig_args.num_channels = None,
      SAMHQVisionConfig_args.image_size = None,
      SAMHQVisionConfig_args.patch_size = None,
      SAMHQVisionConfig_args.hidden_act = None,
      SAMHQVisionConfig_args.layer_norm_eps = None,
      SAMHQVisionConfig_args.attention_dropout = None,
      SAMHQVisionConfig_args.initializer_range = None,
      SAMHQVisionConfig_args.qkv_bias = None,
      SAMHQVisionConfig_args.mlp_ratio = None,
      SAMHQVisionConfig_args.use_abs_pos = None,
      SAMHQVisionConfig_args.use_rel_pos = None,
      SAMHQVisionConfig_args.window_size = None,
      SAMHQVisionConfig_args.global_attn_indexes = None,
      SAMHQVisionConfig_args.num_pos_feats = None,
      SAMHQVisionConfig_args.mlp_dim = None,
      SAMHQVisionConfig_args.kwargs = []\<rparr>"

definition SAMHQVisionConfig_init ::
  "SAMHQVisionConfig_args \<Rightarrow> error + SAMHQVisionConfig" where
  "SAMHQVisionConfig_init a =
     (let hidden_size' = arg_or_default 768 (SAMHQVisionConfig_args.hidden_size a);
          output_channels' = arg_or_default 256 (SAMHQVisionConfig_args.output_channels a);
          num_hidden_layers' = arg_or_default 12 (SAMHQVisionConfig_args.num_hidden_layers a);
          num_attention_heads' = arg_or_default 12 (SAMHQVisionConfig_args.num_attention_heads a);
          num_channels' = arg_or_default 3 (SAMHQVisionConfig_args.num_channels a);
          image_size' = arg_or_default 1024 (SAMHQVisionConfig_args.image_size a);
          patch_size' = arg_or_default 16 (SAMHQVisionConfig_args.patch_size a);
          hidden_act' = arg_or_default ''gelu'' (SAMHQVisionConfig_args.hidden_act a);
          layer_norm_eps' = arg_or_default (float_lit (1 / 1000000)) (SAMHQVisionConfig_args.layer_norm_eps a);
          attention_dropout' = arg_or_default (float_lit 0) (SAMHQVisionConfig_args.attention_dropout a);
          initializer_range' = arg_or_default (float_lit (1 / 10000000000)) (SAMHQVisionConfig_args.initializer_range a);
          qkv_bias' = arg_or_default True (SAMHQVisionConfig_args.qkv_bias a);
          mlp_ratio' = arg_or_default (float_lit 4) (SAMHQVisionConfig_args.mlp_ratio a);
          use_abs_pos' = arg_or_default True (SAMHQVisionConfig_args.use_abs_pos a);
          use_rel_pos' = arg_or_default True (SAMHQVisionConfig_args.use_rel_pos a);
          window_size' = arg_or_default 14 (SAMHQVisionConfig_args.window_size a);
          global_attn_indexes' = arg_or_default default_global_attn_indexes (SAMHQVisionConfig_args.global_attn_indexes a);
          num_pos_feats' = arg_or_default 128 (SAMHQVisionConfig_args.num_pos_feats a);
          base = PretrainedConfig_init (SAMHQVisionConfig_args.kwargs a);
          mlp_dim' =
            (case SAMHQVisionConfig_args.mlp_dim a of
               None \<Rightarrow>
                 (case py_mul_int_float hidden_size' mlp_ratio' of
                    Inl e \<Rightarrow> Inl e
                  | Inr x \<Rightarrow> py_int x)
             | Some d \<Rightarrow> Inr d)
      in case mlp_dim' of
           Inl e \<Rightarrow> Inl e
         | Inr m \<Rightarrow>
             Inr \<lparr>SAMHQVisionConfig.base_kwargs = base,
                  SAMHQVisionConfig.hidden_size = hidden_size',
                  SAMHQVisionConfig.output_channels = output_channels',
                  SAMHQVisionConfig.num_hidden_layers = num_hidden_layers',
                  SAMHQVisionConfig.num_attention_heads = num_attention_heads',
                  SAMHQVisionConfig.num_channels = num_channels',
                  SAMHQVisionConfig.image_size = image_size',
                  SAMHQVisionConfig.patch_size = patch_size',
                  SAMHQVisionConfig.hidden_act = hidden_act',
                  SAMHQVisionConfig.layer_norm_eps = layer_norm_eps',
                  SAMHQVisionConfig.attention_dropout = attention_dropout',
                  SAMHQVisionConfig.initializer_range = initializer_range',
                  SAMHQVisionConfig.qkv_bias = qkv_bias',
                  SAMHQVisionConfig.mlp_ratio = mlp_ratio',
                  SAMHQVisionConfig.use_abs_pos = use_abs_pos',
                  SAMHQVisionConfig.use_rel_pos = use_rel_pos',
                  SAMHQVisionConfig.window_size = window_size',
                  SAMHQVisionConfig.global_attn_indexes = global_attn_indexes',
                  SAMHQVisionConfig.num_pos_feats = num_pos_feats',
                  SAMHQVisionConfig.mlp_dim = m\<rparr>)"

definition SAMHQVisionConfig_to_dict :: "SAMHQVisionConfig \<Rightarrow> SAMHQVisionConfig_args" where
  \<comment> \<open>Modelled from the spec: \<^verbatim>\<open>to_dict\<close> is a method of the base class, which is not in
      this file. The specification has it map every field name, the base layer's
      included, to the field's current value.\<close>
  "SAMHQVisionConfig_to_dict c =
     \<lparr>SAMHQVisionConfig_args.hidden_size = Some (SAMHQVisionConfig.hidden_size c),
      SAMHQVisionConfig_args.output_channels = Some (SAMHQVisionConfig.output_channels c),
      SAMHQVisionConfig_args.num_hidden_layers = Some (SAMHQVisionConfig.num_hidden_layers c),
      SAMHQVisionConfig_args.num_attention_heads = Some (SAMHQVisionConfig.num_attention_heads c),
      SAMHQVisionConfig_args.num_channels = Some (SAMHQVisionConfig.num_channels c),
      SAMHQVisionConfig_args.image_size = Some (SAMHQVisionConfig.image_size c),
      SAMHQVisionConfig_args.patch_size = Some (SAMHQVisionConfig.patch_size c),
      SAMHQVisionConfig_args.hidden_act = Some (SAMHQVisionConfig.hidden_act c),
      SAMHQVisionConfig_args.layer_norm_eps = Some (SAMHQVisionConfig.layer_norm_eps c),
      SAMHQVisionConfig_args.attention_dropout = Some (SAMHQVisionConfig.attention_dropout c),
      SAMHQVisionConfig_args.initializer_range = Some (SAMHQVisionConfig.initializer_range c),
      SAMHQVisionConfig_args.qkv_bias = Some (SAMHQVisionConfig.qkv_bias c),
      SAMHQVisionConfig_args.mlp_ratio = Some (SAMHQVisionConfig.mlp_ratio c),
      SAMHQVisionConfig_args.use_abs_pos = Some (SAMHQVisionConfig.use_abs_pos c),
      SAMHQVisionConfig_args.use_rel_pos = Some (SAMHQVisionConfig.use_rel_pos c),
      SAMHQVisionConfig_args.window_size = Some (SAMHQVisionConfig.window_size c),
      SAMHQVisionConfig_args.global_attn_indexes = Some (SAMHQVisionConfig.global_attn_indexes c),
      SAMHQVisionConfig_args.num_pos_feats = Some (SAMHQVisionConfig.num_pos_feats c),
      SAMHQVisionConfig_args.mlp_dim = Some (SAMHQVisionConfig.mlp_dim c),
      SAMHQVisionConfig_args.kwargs = SAMHQVisionConfig.base_kwargs c\<rparr>"

definition vision_instance :: "SAMHQVisionConfig_args \<Rightarrow> int \<Rightarrow> SAMHQVisionConfig" where
  \<comment> \<open>The instance \<^verbatim>\<open>__init__\<close> has assigned when it returns, given the value of its last
      assignment, \<open>mlp_dim\<close>; used to state what the constructor returns.\<close>
  "vision_instance a m =
     \<lparr>SAMHQVisionConfig.base_kwargs = SAMHQVisionConfig_args.kwargs a,
      SAMHQVisionConfig.hidden_size = arg_or_default 768 (SAMHQVisionConfig_args.hidden_size a),
      SAMHQVisionConfig.output_channels = arg_or_default 256 (SAMHQVisionConfig_args.output_channels a),
      SAMHQVisionConfig.num_hidden_layers = arg_or_default 12 (SAMHQVisionConfig_args.num_hidden_layers a),
      SAMHQVisionConfig.num_attention_heads = arg_or_default 12 (SAMHQVisionConfig_args.num_attention_heads a),
      SAMHQVisionConfig.num_channels = arg_or_default 3 (SAMHQVisionConfig_args.num_channels a),
      SAMHQVisionConfig.image_size = arg_or_default 1024 (SAMHQVisionConfig_args.image_size a),
      SAMHQVisionConfig.patch_size = arg_or_default 16 (SAMHQVisionConfig_args.patch_size a),
      SAMHQVisionConfig.hidden_act = arg_or_default ''gelu'' (SAMHQVisionConfig_args.hidden_act a),
      SAMHQVisionConfig.layer_norm_eps = arg_or_default (float_lit (1 / 1000000)) (SAMHQVisionConfig_args.layer_norm_eps a),
      SAMHQVisionConfig.attention_dropout = arg_or_default (float_lit 0) (SAMHQVisionConfig_args.attention_dropout a),
      SAMHQVisionConfig.initializer_range = arg_or_default (float_lit (1 / 10000000000)) (SAMHQVisionConfig_args.initializer_range a),
      SAMHQVisionConfig.qkv_bias = arg_or_default True (SAMHQVisionConfig_args.qkv_bias a),
      SAMHQVisionConfig.mlp_ratio = arg_or_default (float_lit 4) (SAMHQVisionConfig_args.mlp_ratio a),
      SAMHQVisionConfig.use_abs_pos = arg_or_default True (SAMHQVisionConfig_args.use_abs_pos a),
      SAMHQVisionConfig.use_rel_pos = arg_or_default True (SAMHQVisionConfig_args.use_rel_pos a),
      SAMHQVisionConfig.window_size = arg_or_default 14 (SAMHQVisionConfig_args.window_size a),
      SAMHQVisionConfig.global_attn_indexes = arg_or_default default_global_attn_indexes (SAMHQVisionConfig_args.global_attn_indexes a),
      SAMHQVisionConfig.num_pos_feats = arg_or_default 128 (SAMHQVisionConfig_args.num_pos_feats a),
      SAMHQVisionConfig.mlp_dim = m\<rparr>"

definition spec_mlp_dim :: "int \<Rightarrow> pyfloat \<Rightarrow> error + int" where
  \<comment> \<open>The derived \<open>mlp_dim\<close> in the words of the specification, not of the source:
      \<^verbatim>\<open>round(hidden_size * mlp_ratio)\<close>.\<close>
  "spec_mlp_dim h r = (case py_mul_int_float h r of Inl e \<Rightarrow> Inl e | Inr x \<Rightarrow> py_round x)"

definition append_through_first ::
  "SAMHQVisionConfig_args \<Rightarrow> SAMHQVisionConfig_args \<Rightarrow> int \<Rightarrow> error + int list option" where
  \<comment> \<open>Two constructions after the module is loaded, \<^verbatim>\<open>c1.global_attn_indexes.append(x)\<close>,
      then what \<^verbatim>\<open>c2.global_attn_indexes\<close> reads.\<close>
  "append_through_first a1 a2 x =
     (case SAMHQVisionConfig_init a1 of
        Inl e \<Rightarrow> Inl e
      | Inr c1 \<Rightarrow>
          (case SAMHQVisionConfig_init a2 of
             Inl e \<Rightarrow> Inl e
           | Inr c2 \<Rightarrow>
               Inr (py_list_append module_store (SAMHQVisionConfig.global_attn_indexes c1) x
                      (SAMHQVisionConfig.global_attn_indexes c2))))"

section \<open>SAMHQConfig\<close>

text \<open>
  What a sub-configuration argument, and later the attribute of the same name, can hold:
  \<^verbatim>\<open>None\<close>, a mapping of keyword arguments, or an instance of the sub-configuration class.
\<close>

datatype ('k, 'i) config_value = NoneValue | DictValue 'k | InstanceValue 'i

record SAMHQConfig =
  base_kwargs :: kwargs
  vision_config :: "(SAMHQVisionConfig_args, SAMHQVisionConfig) config_value"
  prompt_encoder_config ::
    "(SAMHQPromptEncoderConfig_args, SAMHQPromptEncoderConfig) config_value"
  mask_decoder_config :: "(SAMHQMaskDecoderConfig_args, SAMHQMaskDecoderConfig) config_value"
  initializer_range :: pyfloat

record SAMHQConfig_args =
  vision_config :: "(SAMHQVisionConfig_args, SAMHQVisionConfig) config_value"
  prompt_encoder_config ::
    "(SAMHQPromptEncoderConfig_args, SAMHQPromptEncoderConfig) config_value"
  mask_decoder_config :: "(SAMHQMaskDecoderConfig_args, SAMHQMaskDecoderConfig) config_value"
  initializer_range :: "pyfloat option"
  kwargs :: kwargs

definition SAMHQConfig_no_args :: SAMHQConfig_args where
  "SAMHQConfig_no_args =
     \<lparr>SAMHQConfig_args.vision_config = NoneValue,
      SAMHQConfig_args.prompt_encoder_config = NoneValue,
      SAMHQConfig_args.mask_decoder_config = NoneValue,
      SAMHQConfig_args.initializer_range = None,
      SAMHQConfig_args.kwargs = []\<rparr>"

definition empty_if_none :: "'k \<Rightarrow> ('k, 'i) config_value \<Rightarrow> ('k, 'i) config_value" where
  \<comment> \<open>\<^verbatim>\<open>x = x if x is not None else {}\<close>\<close>
  "empty_if_none no_args x = (if x \<noteq> NoneValue then x else DictValue no_args)"

definition to_dict_if_instance ::
  "('i \<Rightarrow> 'k) \<Rightarrow> ('k, 'i) config_value \<Rightarrow> ('k, 'i) config_value" where
  \<comment> \<open>\<^verbatim>\<open>if isinstance(x, C): x = x.to_dict()\<close>\<close>
  "to_dict_if_instance to_dict x = (case x of InstanceValue i \<Rightarrow> DictValue (to_dict i) | _ \<Rightarrow> x)"

definition call_with_mapping ::
  "('k \<Rightarrow> error + 'i) \<Rightarrow> ('k, 'i) config_value \<Rightarrow> error + 'i" where
  \<comment> \<open>\<^verbatim>\<open>C(**x)\<close>: the argument after \<^verbatim>\<open>**\<close> must be a mapping.\<close>
  "call_with_mapping init x = (case x of DictValue d \<Rightarrow> init d | _ \<Rightarrow> Inl TypeError)"

definition normalized :: "'k \<Rightarrow> ('i \<Rightarrow> 'k) \<Rightarrow> ('k, 'i) config_value \<Rightarrow> 'k" where
  \<comment> \<open>The mapping the first two steps of \<^verbatim>\<open>SAMHQConfig.__init__\<close> leave for a sub-configuration
      argument; used to state what the constructor returns.\<close>
  "normalized no_args to_dict x =
     (case x of NoneValue \<Rightarrow> no_args | DictValue d \<Rightarrow> d | InstanceValue i \<Rightarrow> to_dict i)"

text \<open>
  \<^verbatim>\<open>to_dict\<close> belongs to the base class, which is not in this file: the constructor takes
  the three instances of it as parameters.
\<close>

definition SAMHQConfig_init ::
  "(SAMHQVisionConfig \<Rightarrow> SAMHQVisionConfig_args) \<Rightarrow>
   (SAMHQPromptEncoderConfig \<Rightarrow> SAMHQPromptEncoderConfig_args) \<Rightarrow>
   (SAMHQMaskDecoderConfig \<Rightarrow> SAMHQMaskDecoderConfig_args) \<Rightarrow>
   SAMHQConfig_args \<Rightarrow> error + SAMHQConfig" where
  "SAMHQConfig_init vision_to_dict prompt_to_dict mask_to_dict a =
     (let initializer_range' =
            arg_or_default (float_lit (2 / 100)) (SAMHQConfig_args.initializer_range a);
          base = PretrainedConfig_init (SAMHQConfig_args.kwargs a);
          vision_config' =
            empty_if_none SAMHQVisionConfig_no_args (SAMHQConfig_args.vision_config a);
          prompt_encoder_config' =
            empty_if_none SAMHQPromptEncoderConfig_no_args
              (SAMHQConfig_args.prompt_encoder_config a);
          mask_decoder_config' =
            empty_if_none SAMHQMaskDecoderConfig_no_args
              (SAMHQConfig_args.mask_decoder_config a);
          vision_config'' = to_dict_if_instance vision_to_dict vision_config';
          prompt_encoder_config'' = to_dict_if_instance prompt_to_dict prompt_encoder_config';
          mask_decoder_config'' = to_dict_if_instance mask_to_dict mask_decoder_config'
      in case call_with_mapping SAMHQVisionConfig_init vision_config'' of
           Inl e \<Rightarrow> Inl e
         | Inr v \<Rightarrow>
             (case call_with_mapping SAMHQPromptEncoderConfig_init prompt_encoder_config'' of
                Inl e \<Rightarrow> Inl e
              | Inr p \<Rightarrow>
                  (case call_with_mapping SAMHQMaskDecoderConfig_init mask_decoder_config'' of
                     Inl e \<Rightarrow> Inl e
                   | Inr m \<Rightarrow>
                       Inr \<lparr>SAMHQConfig.base_kwargs = base,
                            SAMHQConfig.vision_config = InstanceValue v,
                            SAMHQConfig.prompt_encoder_config = InstanceValue p,
                            SAMHQConfig.mask_decoder_config = InstanceValue m,
                            SAMHQConfig.initializer_range = initializer_range'\<rparr>)))"

section \<open>Properties of the binary64 operations\<close>

text \<open>
  The rounding of the model is the one of the format: \<open>floor_log2\<close> finds the binade of its
  argument, \<open>round_half_even\<close> is within one half of it, and an \<^verbatim>\<open>int\<close> below \<open>2^53\<close> in
  absolute value converts to the float of the same value.
\<close>

lemma pow2_pos: "0 < pow2 k"
  by (simp add: pow2_def)

lemma round_half_even_nearest: "\<bar>q - of_int (round_half_even q)\<bar> \<le> 1 / 2"
proof -
  define f where "f = \<lfloor>q\<rfloor>"
  have "of_int f \<le> q" "q < of_int f + 1" unfolding f_def by linarith+
  then show ?thesis
    unfolding round_half_even_def f_def [symmetric] Let_def
    by (auto simp add: abs_if)
qed

lemma round_half_even_of_int: "round_half_even (of_int n) = n"
  by (simp add: round_half_even_def Let_def)

lemma floor_log2_bounds:
  assumes "0 < a"
  shows "pow2 (floor_log2 a) \<le> a \<and> a < pow2 (floor_log2 a + 1)"
proof (cases "1 \<le> a")
  case True
  define n where "n = \<lfloor>a\<rfloor>"
  have n1: "1 \<le> n" using True by (simp add: n_def le_floor_iff)
  have na: "of_int n \<le> a" "a < of_int n + 1" unfolding n_def by linarith+
  from n1 have b: "2 ^ nat (bitlen n - 1) \<le> n" "n < 2 ^ nat (bitlen n)"
    using bitlen_bounds [of n] by simp_all
  have k1: "1 \<le> bitlen n" using n1 by (simp add: bitlen_alt_def)
  have e: "floor_log2 a = bitlen n - 1" using True by (simp add: floor_log2_def n_def)
  have "pow2 (bitlen n - 1) = of_int (2 ^ nat (bitlen n - 1))" using k1 by (simp add: pow2_def)
  also have "\<dots> \<le> of_int n" using b(1) by (simp only: of_int_le_iff)
  also note na(1)
  finally have lo: "pow2 (bitlen n - 1) \<le> a" .
  have "n + 1 \<le> 2 ^ nat (bitlen n)" using b(2) by simp
  then have "(of_int (n + 1) :: rat) \<le> of_int (2 ^ nat (bitlen n))" by (simp only: of_int_le_iff)
  moreover have "a < of_int (n + 1)" using na(2) by simp
  ultimately have "a < of_int (2 ^ nat (bitlen n))" by (rule less_le_trans [rotated])
  moreover have "pow2 (bitlen n - 1 + 1) = of_int (2 ^ nat (bitlen n))"
    using k1 by (simp add: pow2_def)
  ultimately show ?thesis using lo e by simp
next
  case False
  define x where "x = 1 / a"
  define c where "c = \<lceil>x\<rceil>"
  have x1: "1 < x" using False assms by (simp add: x_def)
  have cx: "x \<le> of_int c" "of_int c - 1 < x" unfolding c_def by linarith+
  have c2: "2 \<le> c" using x1 cx(1) by linarith
  define k where "k = bitlen (c - 1)"
  from c2 have b: "2 ^ nat (k - 1) \<le> c - 1" "c - 1 < 2 ^ nat k"
    using bitlen_bounds [of "c - 1"] by (simp_all add: k_def)
  have k1: "1 \<le> k" using c2 by (simp add: k_def bitlen_alt_def)
  have e: "floor_log2 a = - k" using False by (simp add: floor_log2_def k_def c_def x_def)
  have a_eq: "a = 1 / x" by (simp add: x_def)
  have "c \<le> 2 ^ nat k" using b(2) by simp
  then have "(of_int c :: rat) \<le> of_int (2 ^ nat k)" by (simp only: of_int_le_iff)
  with cx(1) have xle: "x \<le> of_int (2 ^ nat k)" by (rule order_trans)
  have p0: "(0::rat) < of_int (2 ^ nat k)" by simp
  have lo: "pow2 (- k) \<le> a"
  proof -
    have "pow2 (- k) = 1 / of_int (2 ^ nat k)" using k1 by (simp add: pow2_def)
    also have "\<dots> \<le> 1 / x" using xle x1 by (intro divide_left_mono) simp_all
    finally show ?thesis by (simp add: a_eq)
  qed
  have "(of_int (2 ^ nat (k - 1)) :: rat) \<le> of_int (c - 1)" using b(1) by (simp only: of_int_le_iff)
  moreover have "(of_int (c - 1) :: rat) = of_int c - 1" by simp
  ultimately have "(of_int (2 ^ nat (k - 1)) :: rat) \<le> of_int c - 1" by (simp only:)
  from this cx(2) have xgt: "of_int (2 ^ nat (k - 1)) < x" by (rule le_less_trans)
  have hi: "a < pow2 (- k + 1)"
  proof (cases "k = 1")
    case True
    then show ?thesis using False by (simp add: pow2_def)
  next
    case False
    with k1 have "pow2 (- k + 1) = 1 / of_int (2 ^ nat (k - 1))" by (simp add: pow2_def)
    moreover have "1 / x < 1 / of_int (2 ^ nat (k - 1))"
      using xgt x1 by (intro divide_strict_left_mono) (simp_all add: mult_pos_pos)
    ultimately show ?thesis by (simp add: a_eq)
  qed
  from lo hi e show ?thesis by simp
qed


lemma pow2_powi: "pow2 k = 2 powi k"
  by (simp add: pow2_def power_int_def power_inverse [symmetric] inverse_eq_divide
      power_one_over)

lemma pow2_mono: "j \<le> k \<Longrightarrow> pow2 j \<le> pow2 k"
  by (simp add: pow2_powi power_int_increasing)

lemma pow2_add: "pow2 (j + k) = pow2 j * pow2 k"
  by (simp add: pow2_powi power_int_add)

lemma pow2_nat: "0 \<le> k \<Longrightarrow> pow2 k = of_int (2 ^ nat k)"
  by (simp add: pow2_def)

lemma round_to_double_pos_int:
  assumes "0 < n" and "n < 2 ^ 53"
  shows "round_to_double (of_int n) = Finite (of_int n)"
proof -
  define a :: rat where "a = of_int n"
  define e where "e = floor_log2 a"
  have a1: "1 \<le> a" using assms(1) by (simp add: a_def)
  then have a0: "0 < a" by simp
  have a53: "a < pow2 53"
  proof -
    have "(of_int n :: rat) < of_int (2 ^ 53)" using assms(2) by (simp only: of_int_less_iff)
    then show ?thesis by (simp add: a_def pow2_def)
  qed
  from floor_log2_bounds [OF a0] have b: "pow2 e \<le> a" "a < pow2 (e + 1)"
    by (simp_all add: e_def)
  have e0: "0 \<le> e"
  proof (rule ccontr)
    assume "\<not> 0 \<le> e"
    then have "pow2 (e + 1) \<le> pow2 0" by (intro pow2_mono) simp
    with b(2) a1 show False by (simp add: pow2_def)
  qed
  have e52: "e \<le> 52"
  proof (rule ccontr)
    assume "\<not> e \<le> 52"
    then have "pow2 53 \<le> pow2 e" by (intro pow2_mono) simp
    with b(1) a53 show False by simp
  qed
  define p where "p = max (e - 52) (- 1074)"
  have p: "p = e - 52" using e0 by (simp add: p_def)
  have split: "pow2 (52 - e) * pow2 p = 1"
    using pow2_add [of "52 - e" p] by (simp add: p pow2_def)
  have pp: "0 < pow2 p" by (rule pow2_pos)
  have quot: "a / pow2 p = of_int (n * 2 ^ nat (52 - e))"
  proof -
    have "a / pow2 p = a * pow2 (52 - e)"
      using split pp by (simp add: field_simps)
    also have "pow2 (52 - e) = of_int (2 ^ nat (52 - e))"
      using e52 by (simp add: pow2_nat)
    finally show ?thesis by (simp add: a_def)
  qed
  have r: "round_half_even (a / pow2 p) = n * 2 ^ nat (52 - e)"
    unfolding quot by (rule round_half_even_of_int)
  have v: "of_int (round_half_even (a / pow2 p)) * pow2 p = a"
  proof -
    have "of_int (round_half_even (a / pow2 p)) * pow2 p = (a / pow2 p) * pow2 p"
      by (simp only: quot round_half_even_of_int)
    also have "\<dots> = a" using pp by simp
    finally show ?thesis .
  qed
  have big: "\<not> pow2 1024 \<le> a"
  proof -
    have "pow2 53 \<le> pow2 1024" by (intro pow2_mono) simp
    with a53 show ?thesis by simp
  qed
  have "round_to_double a = Finite a"
    using a0 big unfolding round_to_double_def Let_def
    by (simp add: e_def [symmetric] p_def [symmetric] v)
  then show ?thesis by (simp add: a_def)
qed

lemma round_to_double_minus:
  "round_to_double (- q) =
     (case round_to_double q of
        Finite v \<Rightarrow> Finite (- v) | PosInf \<Rightarrow> NegInf | NegInf \<Rightarrow> PosInf | NaN \<Rightarrow> NaN)"
  by (cases "0 < q"; cases "q = 0") (simp_all add: round_to_double_def Let_def)

lemma py_float_of_int_exact:
  assumes "\<bar>n\<bar> < 2 ^ 53"
  shows "py_float_of_int n = Inr (Finite (of_int n))"
proof -
  consider "n = 0" | "0 < n" | "n < 0" by linarith
  then have "round_to_double (of_int n) = Finite (of_int n)"
  proof cases
    case 1
    then show ?thesis by (simp add: round_to_double_def)
  next
    case 2
    with assms show ?thesis by (intro round_to_double_pos_int) simp_all
  next
    case 3
    with assms have "round_to_double (of_int (- n)) = Finite (of_int (- n))"
      by (intro round_to_double_pos_int) simp_all
    then have "round_to_double (- of_int (- n)) = Finite (- of_int (- n))"
      by (simp only: round_to_double_minus pyfloat.case)
    then show ?thesis by simp
  qed
  then show ?thesis by (simp add: py_float_of_int_def)
qed

section \<open>Properties of SAMHQPromptEncoderConfig\<close>

text \<open>The constructor in closed form: it fails exactly on a zero \<open>patch_size\<close>.\<close>

lemma prompt_init_eq:
  "SAMHQPromptEncoderConfig_init a =
     (if arg_or_default 16 (SAMHQPromptEncoderConfig_args.patch_size a) = 0
      then Inl ZeroDivisionError
      else Inr \<lparr>SAMHQPromptEncoderConfig.base_kwargs = SAMHQPromptEncoderConfig_args.kwargs a,
                SAMHQPromptEncoderConfig.hidden_size =
                  arg_or_default 256 (SAMHQPromptEncoderConfig_args.hidden_size a),
                SAMHQPromptEncoderConfig.image_size =
                  arg_or_default 1024 (SAMHQPromptEncoderConfig_args.image_size a),
                SAMHQPromptEncoderConfig.patch_size =
                  arg_or_default 16 (SAMHQPromptEncoderConfig_args.patch_size a),
                SAMHQPromptEncoderConfig.image_embedding_size =
                  arg_or_default 1024 (SAMHQPromptEncoderConfig_args.image_size a) div
                  arg_or_default 16 (SAMHQPromptEncoderConfig_args.patch_size a),
                SAMHQPromptEncoderConfig.mask_input_channels =
                  arg_or_default 16 (SAMHQPromptEncoderConfig_args.mask_input_channels a),
                SAMHQPromptEncoderConfig.num_point_embeddings =
                  arg_or_default 4 (SAMHQPromptEncoderConfig_args.num_point_embeddings a),
                SAMHQPromptEncoderConfig.hidden_act =
                  arg_or_default ''gelu'' (SAMHQPromptEncoderConfig_args.hidden_act a),
                SAMHQPromptEncoderConfig.layer_norm_eps =
                  arg_or_default (float_lit (1 / 1000000))
                    (SAMHQPromptEncoderConfig_args.layer_norm_eps a)\<rparr>)"
  by (simp add: SAMHQPromptEncoderConfig_init_def py_floordiv_def PretrainedConfig_init_def Let_def)

text \<open>
  Claim C1, as stated: constructing \<open>SAMHQPromptEncoderConfig\<close> with \<open>patch_size \<le> 0\<close> raises
  \<open>ConfigurationError\<close> and returns no instance. The code refutes it at \<open>patch_size = -16\<close>:
  the call returns an instance, whose \<open>image_embedding_size\<close> is \<open>-64\<close>.
\<close>

theorem C1_negative_patch_size_counterexample:
  "\<not> isl (SAMHQPromptEncoderConfig_init
            (SAMHQPromptEncoderConfig_no_args\<lparr>SAMHQPromptEncoderConfig_args.patch_size := Some (- 16)\<rparr>)) \<and>
   map_sum id SAMHQPromptEncoderConfig.image_embedding_size
     (SAMHQPromptEncoderConfig_init
        (SAMHQPromptEncoderConfig_no_args\<lparr>SAMHQPromptEncoderConfig_args.patch_size := Some (- 16)\<rparr>)) = Inr (- 64)"
  by (simp add: prompt_init_eq SAMHQPromptEncoderConfig_no_args_def arg_or_default_def)

text \<open>
  Claim C1, amended: constructing \<open>SAMHQPromptEncoderConfig\<close> with \<open>patch_size\<close> equal to zero
  fails with \<open>ZeroDivisionError\<close>, raised by the floor division, and returns no instance; no
  construction, whatever its arguments, raises \<open>ConfigurationError\<close>.
\<close>

theorem C1_zero_patch_size:
  "(SAMHQPromptEncoderConfig_args.patch_size a = Some 0 \<longrightarrow>
      SAMHQPromptEncoderConfig_init a = Inl ZeroDivisionError) \<and>
   SAMHQPromptEncoderConfig_init a \<noteq> Inl ConfigurationError"
  by (simp add: prompt_init_eq arg_or_default_def)

theorem C1_zero_patch_size_witness:
  "SAMHQPromptEncoderConfig_args.patch_size
     (SAMHQPromptEncoderConfig_no_args\<lparr>SAMHQPromptEncoderConfig_args.patch_size := Some 0\<rparr>) = Some 0 \<and>
   SAMHQPromptEncoderConfig_init
     (SAMHQPromptEncoderConfig_no_args\<lparr>SAMHQPromptEncoderConfig_args.patch_size := Some 0\<rparr>) = Inl ZeroDivisionError"
  using C1_zero_patch_size
    [of "SAMHQPromptEncoderConfig_no_args\<lparr>SAMHQPromptEncoderConfig_args.patch_size := Some 0\<rparr>"]
  by simp

text \<open>
  Claim C3: for every construction whose \<open>patch_size\<close> \<open>P\<close> (passed or defaulted to \<open>16\<close>) is
  positive and divides its \<open>image_size\<close> \<open>I\<close> (passed or defaulted to \<open>1024\<close>), the
  construction returns an instance that stores \<open>I\<close>, \<open>P\<close> and
  \<open>image_embedding_size = I // P\<close>, the floor of the quotient, which here is exact;
  \<open>image_size = 1024\<close>, \<open>patch_size = 16\<close> gives \<open>64\<close>.
\<close>

theorem C3_image_embedding_size:
  assumes "arg_or_default 1024 (SAMHQPromptEncoderConfig_args.image_size a) = I"
    and "arg_or_default 16 (SAMHQPromptEncoderConfig_args.patch_size a) = P"
    and "0 < P" and "P dvd I"
  shows "\<exists>c. SAMHQPromptEncoderConfig_init a = Inr c \<and>
             SAMHQPromptEncoderConfig.image_size c = I \<and>
             SAMHQPromptEncoderConfig.patch_size c = P \<and>
             SAMHQPromptEncoderConfig.image_embedding_size c = \<lfloor>(of_int I :: rat) / of_int P\<rfloor> \<and>
             SAMHQPromptEncoderConfig.image_embedding_size c * P = I"
  using assms by (auto simp add: prompt_init_eq floor_divide_of_int_eq)

theorem C3_image_embedding_size_witness:
  "(\<exists>c. SAMHQPromptEncoderConfig_init SAMHQPromptEncoderConfig_no_args = Inr c \<and>
        SAMHQPromptEncoderConfig.image_size c = 1024 \<and>
        SAMHQPromptEncoderConfig.patch_size c = 16 \<and>
        SAMHQPromptEncoderConfig.image_embedding_size c = 64) \<and>
   (\<exists>c. SAMHQPromptEncoderConfig_init
          (SAMHQPromptEncoderConfig_no_args\<lparr>SAMHQPromptEncoderConfig_args.image_size := Some 1024,
             SAMHQPromptEncoderConfig_args.patch_size := Some 16\<rparr>) = Inr c \<and>
        SAMHQPromptEncoderConfig.image_size c = 1024 \<and>
        SAMHQPromptEncoderConfig.patch_size c = 16 \<and>
        SAMHQPromptEncoderConfig.image_embedding_size c = 64) \<and>
   (\<exists>c. SAMHQPromptEncoderConfig_init
          (SAMHQPromptEncoderConfig_no_args\<lparr>SAMHQPromptEncoderConfig_args.patch_size := Some 32\<rparr>) = Inr c \<and>
        SAMHQPromptEncoderConfig.image_size c = 1024 \<and>
        SAMHQPromptEncoderConfig.patch_size c = 32 \<and>
        SAMHQPromptEncoderConfig.image_embedding_size c = 32)"
  using C3_image_embedding_size [of SAMHQPromptEncoderConfig_no_args 1024 16]
    C3_image_embedding_size
      [of "SAMHQPromptEncoderConfig_no_args\<lparr>SAMHQPromptEncoderConfig_args.image_size := Some 1024,
             SAMHQPromptEncoderConfig_args.patch_size := Some 16\<rparr>" 1024 16]
    C3_image_embedding_size
      [of "SAMHQPromptEncoderConfig_no_args\<lparr>SAMHQPromptEncoderConfig_args.patch_size := Some 32\<rparr>" 1024 32]
  by (simp add: SAMHQPromptEncoderConfig_no_args_def arg_or_default_def)

text \<open>
  Claim C10: for every strictly negative \<open>patch_size\<close> the construction returns an instance,
  and its \<open>image_embedding_size\<close> is the floor of \<open>image_size / patch_size\<close>, negative when
  \<open>image_size\<close> is positive; \<open>image_size = 1024\<close>, \<open>patch_size = -16\<close> gives \<open>-64\<close>.
\<close>

theorem C10_negative_patch_size:
  assumes "SAMHQPromptEncoderConfig_args.patch_size a = Some P" and "P < 0"
    and "arg_or_default 1024 (SAMHQPromptEncoderConfig_args.image_size a) = I"
  shows "\<exists>c. SAMHQPromptEncoderConfig_init a = Inr c \<and>
             SAMHQPromptEncoderConfig.image_embedding_size c = \<lfloor>(of_int I :: rat) / of_int P\<rfloor> \<and>
             (0 < I \<longrightarrow> SAMHQPromptEncoderConfig.image_embedding_size c < 0)"
  using assms
  by (auto simp add: prompt_init_eq arg_or_default_def floor_divide_of_int_eq
      neg_imp_zdiv_neg_iff)

theorem C10_negative_patch_size_witness:
  "\<exists>c. SAMHQPromptEncoderConfig_init
          (SAMHQPromptEncoderConfig_no_args\<lparr>SAMHQPromptEncoderConfig_args.image_size := Some 1024,
             SAMHQPromptEncoderConfig_args.patch_size := Some (- 16)\<rparr>) = Inr c \<and>
       SAMHQPromptEncoderConfig.image_embedding_size c = - 64"
  using C10_negative_patch_size
    [of "SAMHQPromptEncoderConfig_no_args\<lparr>SAMHQPromptEncoderConfig_args.image_size := Some 1024,
           SAMHQPromptEncoderConfig_args.patch_size := Some (- 16)\<rparr>" "- 16" 1024]
  by (auto simp add: SAMHQPromptEncoderConfig_no_args_def arg_or_default_def)

section \<open>Properties of SAMHQVisionConfig\<close>

subsection \<open>Truncation and rounding\<close>

lemma trunc_toward_zero_bounds:
  "\<bar>of_int (trunc_toward_zero q)\<bar> \<le> \<bar>q\<bar> \<and> \<bar>q\<bar> < \<bar>of_int (trunc_toward_zero q)\<bar> + 1 \<and>
   0 \<le> of_int (trunc_toward_zero q) * q"
proof (cases "0 \<le> q")
  case True
  define f where "f = \<lfloor>q\<rfloor>"
  have t: "trunc_toward_zero q = f"
    using True by (simp add: trunc_toward_zero_def f_def)
  have "0 \<le> f" using True by (simp add: f_def)
  then have f0: "(0::rat) \<le> of_int f" by simp
  have "of_int f \<le> q" "q < of_int f + 1" unfolding f_def by linarith+
  with f0 True show ?thesis unfolding t by (simp add: abs_if)
next
  case False
  define c where "c = \<lceil>q\<rceil>"
  have t: "trunc_toward_zero q = c"
    using False by (simp add: trunc_toward_zero_def c_def)
  have "c \<le> 0" using False by (simp add: c_def ceiling_le_iff)
  then have c0: "(of_int c :: rat) \<le> 0" by simp
  have b: "q \<le> of_int c" "of_int c < q + 1" unfolding c_def by linarith+
  have "0 \<le> of_int c * q"
    using c0 False by (intro mult_nonpos_nonpos) simp_all
  moreover have "\<bar>of_int c :: rat\<bar> = - of_int c" using c0 by simp
  moreover have "\<bar>q\<bar> = - q" using False by simp
  ultimately show ?thesis unfolding t using b by simp
qed

lemma round_half_even_eq_trunc_iff:
  "round_half_even q = trunc_toward_zero q \<longleftrightarrow>
     \<bar>q - of_int (trunc_toward_zero q)\<bar> < 1 / 2 \<or>
     (\<bar>q - of_int (trunc_toward_zero q)\<bar> = 1 / 2 \<and> even (trunc_toward_zero q))"
proof -
  define f where "f = \<lfloor>q\<rfloor>"
  have f: "of_int f \<le> q" "q < of_int f + 1" unfolding f_def by linarith+
  show ?thesis
  proof (cases "0 \<le> q \<or> q = of_int f")
    case True
    then have t: "trunc_toward_zero q = f"
      unfolding trunc_toward_zero_def f_def by (auto simp: ceiling_altdef)
    show ?thesis unfolding t unfolding round_half_even_def f_def[symmetric] Let_def
      using f by (auto simp: abs_if)
  next
    case False
    then have t: "trunc_toward_zero q = f + 1"
      unfolding trunc_toward_zero_def f_def by (auto simp: ceiling_altdef)
    from False f have lt: "of_int f < q" by simp
    show ?thesis unfolding t unfolding round_half_even_def f_def[symmetric] Let_def
      using f lt by (auto simp: abs_if)
  qed
qed

lemma py_int_Inr_iff: "py_int x = Inr n \<longleftrightarrow> (\<exists>q. x = Finite q \<and> n = trunc_toward_zero q)"
  by (cases x) auto

subsection \<open>The constructor in closed form\<close>

lemma vision_init_eq:
  "SAMHQVisionConfig_init a =
     (case SAMHQVisionConfig_args.mlp_dim a of
        Some d \<Rightarrow> Inr (vision_instance a d)
      | None \<Rightarrow>
          (case py_mul_int_float (arg_or_default 768 (SAMHQVisionConfig_args.hidden_size a))
                  (arg_or_default (float_lit 4) (SAMHQVisionConfig_args.mlp_ratio a)) of
             Inl e \<Rightarrow> Inl e
           | Inr x \<Rightarrow> (case py_int x of Inl e \<Rightarrow> Inl e | Inr m \<Rightarrow> Inr (vision_instance a m))))"
  unfolding SAMHQVisionConfig_init_def vision_instance_def PretrainedConfig_init_def Let_def
  by (simp split: option.split sum.split)


lemma vision_instance_sel [simp]:
  "SAMHQVisionConfig.hidden_size (vision_instance a m) = arg_or_default 768 (SAMHQVisionConfig_args.hidden_size a)"
  "SAMHQVisionConfig.mlp_ratio (vision_instance a m) = arg_or_default (float_lit 4) (SAMHQVisionConfig_args.mlp_ratio a)"
  "SAMHQVisionConfig.window_size (vision_instance a m) = arg_or_default 14 (SAMHQVisionConfig_args.window_size a)"
  "SAMHQVisionConfig.global_attn_indexes (vision_instance a m) =
     arg_or_default default_global_attn_indexes (SAMHQVisionConfig_args.global_attn_indexes a)"
  "SAMHQVisionConfig.mlp_dim (vision_instance a m) = m"
  by (simp_all add: vision_instance_def)

lemma vision_init_derived:
  assumes "SAMHQVisionConfig_args.mlp_dim a = None" and "SAMHQVisionConfig_init a = Inr c"
  shows "\<exists>q. py_mul_int_float (SAMHQVisionConfig.hidden_size c) (SAMHQVisionConfig.mlp_ratio c) = Inr (Finite q) \<and>
             SAMHQVisionConfig.mlp_dim c = trunc_toward_zero q"
proof -
  let ?p = "py_mul_int_float (arg_or_default 768 (SAMHQVisionConfig_args.hidden_size a))
              (arg_or_default (float_lit 4) (SAMHQVisionConfig_args.mlp_ratio a))"
  from assms obtain x where x: "?p = Inr x"
    by (cases ?p) (simp_all add: vision_init_eq)
  from assms x obtain m where m: "py_int x = Inr m" and c: "c = vision_instance a m"
    by (cases "py_int x") (simp_all add: vision_init_eq)
  from m obtain q where "x = Finite q" "m = trunc_toward_zero q"
    by (auto simp add: py_int_Inr_iff)
  with x c show ?thesis by simp
qed

lemma vision_init_explicit:
  assumes "SAMHQVisionConfig_args.mlp_dim a = Some d"
  shows "SAMHQVisionConfig_init a = Inr (vision_instance a d)"
  using assms by (simp add: vision_init_eq)

lemma vision_init_finite:
  assumes "SAMHQVisionConfig_args.mlp_dim a = None"
    and "py_mul_int_float (arg_or_default 768 (SAMHQVisionConfig_args.hidden_size a))
           (arg_or_default (float_lit 4) (SAMHQVisionConfig_args.mlp_ratio a)) = Inr (Finite q)"
  shows "SAMHQVisionConfig_init a = Inr (vision_instance a (trunc_toward_zero q))"
  using assms by (simp add: vision_init_eq)

lemma mul_768_4: "py_mul_int_float 768 (float_lit 4) = Inr (Finite 3072)"
  by code_simp

lemma mul_3_half: "py_mul_int_float 3 (float_lit (1 / 2)) = Inr (Finite (3 / 2))"
  by code_simp

lemma float_lit_4: "float_lit 4 = Finite 4"
  by code_simp

lemma trunc_3072: "trunc_toward_zero 3072 = 3072"
  by (simp add: trunc_toward_zero_def)

lemma vision_default:
  "SAMHQVisionConfig_init SAMHQVisionConfig_no_args = Inr (vision_instance SAMHQVisionConfig_no_args 3072)"
  using vision_init_finite [of SAMHQVisionConfig_no_args 3072]
  by (simp add: SAMHQVisionConfig_no_args_def arg_or_default_def mul_768_4 trunc_3072)

lemma float_lit_half: "float_lit (1 / 2) = Finite (1 / 2)"
  by code_simp

lemma round_three_halves: "round_half_even (3 / 2) = 2"
  by code_simp

lemma trunc_three_halves: "trunc_toward_zero (3 / 2) = 1"
  by code_simp

lemma default_list: "module_store default_global_attn_indexes = Some [2, 5, 8, 11]"
  by (simp add: module_store_def)

lemma append_default:
  "py_list_append module_store default_global_attn_indexes x default_global_attn_indexes
     = Some [2, 5, 8, 11, x]"
  by (simp add: py_list_append_def default_list)

lemma no_args_list:
  "arg_or_default default_global_attn_indexes
     (SAMHQVisionConfig_args.global_attn_indexes SAMHQVisionConfig_no_args)
     = default_global_attn_indexes"
  by (simp add: SAMHQVisionConfig_no_args_def arg_or_default_def)

lemma mul_1280_4: "py_mul_int_float 1280 (float_lit 4) = Inr (Finite 5120)"
  by code_simp

lemma trunc_of_int: "trunc_toward_zero (of_int n) = n"
  by (simp add: trunc_toward_zero_def)

lemma vision_init_not_finite:
  assumes "SAMHQVisionConfig_args.mlp_dim a = None"
    and "\<forall>q. py_mul_int_float (arg_or_default 768 (SAMHQVisionConfig_args.hidden_size a))
           (arg_or_default (float_lit 4) (SAMHQVisionConfig_args.mlp_ratio a)) \<noteq> Inr (Finite q)"
  shows "isl (SAMHQVisionConfig_init a)"
proof -
  let ?p = "py_mul_int_float (arg_or_default 768 (SAMHQVisionConfig_args.hidden_size a))
              (arg_or_default (float_lit 4) (SAMHQVisionConfig_args.mlp_ratio a))"
  show ?thesis
  proof (cases ?p)
    case (Inl e)
    with assms(1) show ?thesis by (simp add: vision_init_eq)
  next
    case (Inr x)
    with assms(2) have "\<forall>q. x \<noteq> Finite q" by simp
    then have "isl (py_int x)" by (cases x) simp_all
    with Inr assms(1) show ?thesis
      by (cases "py_int x") (simp_all add: vision_init_eq)
  qed
qed

subsection \<open>The derived field \<open>mlp_dim\<close>\<close>

text \<open>
  Claim C4: a construction of \<open>SAMHQVisionConfig\<close> without an explicit \<open>mlp_dim\<close>, with
  \<open>hidden_size\<close> \<open>H\<close> and \<open>mlp_ratio\<close> \<open>R\<close> (each passed or defaulted, to \<open>768\<close> and \<open>4.0\<close>),
  stores \<^verbatim>\<open>int(H * R)\<close>: when the float product is a finite \<open>q\<close> the construction returns an
  instance that stores \<open>H\<close>, \<open>R\<close> and \<open>q\<close> truncated toward zero (of the sign of \<open>q\<close>, with
  \<open>|mlp_dim| \<le> |q| < |mlp_dim| + 1\<close>), and when it is not the construction raises. A
  construction with an explicit \<open>mlp_dim\<close> always returns, stores that value as it is and
  keeps \<open>mlp_ratio\<close> as passed. The witness has the examples of the specification, the
  defaults giving \<open>3072\<close> and \<open>mlp_dim = 1000\<close> staying \<open>1000\<close>, and \<open>hidden_size = 1280\<close>
  giving \<open>5120\<close>.
\<close>

theorem C4_mlp_dim:
  assumes "arg_or_default 768 (SAMHQVisionConfig_args.hidden_size a) = H"
    and "arg_or_default (float_lit 4) (SAMHQVisionConfig_args.mlp_ratio a) = R"
  shows "(SAMHQVisionConfig_args.mlp_dim a = None \<longrightarrow>
            (\<forall>q. py_mul_int_float H R = Inr (Finite q) \<longrightarrow>
               (\<exists>c. SAMHQVisionConfig_init a = Inr c \<and>
                    SAMHQVisionConfig.hidden_size c = H \<and> SAMHQVisionConfig.mlp_ratio c = R \<and>
                    py_int (Finite q) = Inr (SAMHQVisionConfig.mlp_dim c) \<and>
                    \<bar>of_int (SAMHQVisionConfig.mlp_dim c)\<bar> \<le> \<bar>q\<bar> \<and>
                    \<bar>q\<bar> < \<bar>of_int (SAMHQVisionConfig.mlp_dim c)\<bar> + 1 \<and>
                    0 \<le> of_int (SAMHQVisionConfig.mlp_dim c) * q)) \<and>
            ((\<forall>q. py_mul_int_float H R \<noteq> Inr (Finite q)) \<longrightarrow> isl (SAMHQVisionConfig_init a))) \<and>
         (\<forall>d. SAMHQVisionConfig_args.mlp_dim a = Some d \<longrightarrow>
            (\<exists>c. SAMHQVisionConfig_init a = Inr c \<and> SAMHQVisionConfig.mlp_dim c = d \<and>
                 SAMHQVisionConfig.hidden_size c = H \<and> SAMHQVisionConfig.mlp_ratio c = R \<and>
                 SAMHQVisionConfig.mlp_ratio c = arg_or_default (float_lit 4) (SAMHQVisionConfig_args.mlp_ratio a)))"
proof (intro conjI impI allI)
  fix q
  assume n: "SAMHQVisionConfig_args.mlp_dim a = None" and q: "py_mul_int_float H R = Inr (Finite q)"
  let ?c = "vision_instance a (trunc_toward_zero q)"
  from n q assms have "SAMHQVisionConfig_init a = Inr ?c"
    by (intro vision_init_finite) simp_all
  moreover have "SAMHQVisionConfig.hidden_size ?c = H" "SAMHQVisionConfig.mlp_ratio ?c = R"
    using assms by simp_all
  moreover have "py_int (Finite q) = Inr (SAMHQVisionConfig.mlp_dim ?c)" by simp
  moreover have "\<bar>of_int (SAMHQVisionConfig.mlp_dim ?c)\<bar> \<le> \<bar>q\<bar>"
    "\<bar>q\<bar> < \<bar>of_int (SAMHQVisionConfig.mlp_dim ?c)\<bar> + 1"
    "0 \<le> of_int (SAMHQVisionConfig.mlp_dim ?c) * q"
    using trunc_toward_zero_bounds [of q] by simp_all
  ultimately show "\<exists>c. SAMHQVisionConfig_init a = Inr c \<and>
                    SAMHQVisionConfig.hidden_size c = H \<and> SAMHQVisionConfig.mlp_ratio c = R \<and>
                    py_int (Finite q) = Inr (SAMHQVisionConfig.mlp_dim c) \<and>
                    \<bar>of_int (SAMHQVisionConfig.mlp_dim c)\<bar> \<le> \<bar>q\<bar> \<and>
                    \<bar>q\<bar> < \<bar>of_int (SAMHQVisionConfig.mlp_dim c)\<bar> + 1 \<and>
                    0 \<le> of_int (SAMHQVisionConfig.mlp_dim c) * q"
    by blast
next
  assume "SAMHQVisionConfig_args.mlp_dim a = None" and "\<forall>q. py_mul_int_float H R \<noteq> Inr (Finite q)"
  with assms show "isl (SAMHQVisionConfig_init a)"
    by (intro vision_init_not_finite) simp_all
next
  fix d
  assume "SAMHQVisionConfig_args.mlp_dim a = Some d"
  with assms show "\<exists>c. SAMHQVisionConfig_init a = Inr c \<and> SAMHQVisionConfig.mlp_dim c = d \<and>
                 SAMHQVisionConfig.hidden_size c = H \<and> SAMHQVisionConfig.mlp_ratio c = R \<and>
                 SAMHQVisionConfig.mlp_ratio c = arg_or_default (float_lit 4) (SAMHQVisionConfig_args.mlp_ratio a)"
    by (simp add: vision_init_explicit)
qed

theorem C4_mlp_dim_witness:
  "(\<exists>c. SAMHQVisionConfig_init SAMHQVisionConfig_no_args = Inr c \<and> SAMHQVisionConfig.hidden_size c = 768 \<and>
        SAMHQVisionConfig.mlp_ratio c = Finite 4 \<and> SAMHQVisionConfig.mlp_dim c = 3072) \<and>
   (\<exists>c. SAMHQVisionConfig_init (SAMHQVisionConfig_no_args\<lparr>SAMHQVisionConfig_args.hidden_size := Some 1280\<rparr>) = Inr c \<and>
        SAMHQVisionConfig.hidden_size c = 1280 \<and> SAMHQVisionConfig.mlp_ratio c = Finite 4 \<and>
        SAMHQVisionConfig.mlp_dim c = 5120) \<and>
   (\<exists>c. SAMHQVisionConfig_init
          (SAMHQVisionConfig_no_args\<lparr>SAMHQVisionConfig_args.hidden_size := Some 768, SAMHQVisionConfig_args.mlp_ratio := Some (Finite 4),
             SAMHQVisionConfig_args.mlp_dim := Some 1000\<rparr>) = Inr c \<and>
        SAMHQVisionConfig.hidden_size c = 768 \<and> SAMHQVisionConfig.mlp_ratio c = Finite 4 \<and>
        SAMHQVisionConfig.mlp_dim c = 1000)"
proof (intro conjI)
  have "arg_or_default 768 (SAMHQVisionConfig_args.hidden_size SAMHQVisionConfig_no_args) = 768"
    and "arg_or_default (float_lit 4) (SAMHQVisionConfig_args.mlp_ratio SAMHQVisionConfig_no_args) = float_lit 4"
    and "SAMHQVisionConfig_args.mlp_dim SAMHQVisionConfig_no_args = None"
    by (simp_all add: SAMHQVisionConfig_no_args_def arg_or_default_def)
  from C4_mlp_dim [OF this(1,2)] this(3) mul_768_4
  show "\<exists>c. SAMHQVisionConfig_init SAMHQVisionConfig_no_args = Inr c \<and> SAMHQVisionConfig.hidden_size c = 768 \<and>
        SAMHQVisionConfig.mlp_ratio c = Finite 4 \<and> SAMHQVisionConfig.mlp_dim c = 3072"
    by (auto simp add: float_lit_4 trunc_3072)
next
  let ?a = "SAMHQVisionConfig_no_args\<lparr>SAMHQVisionConfig_args.hidden_size := Some 1280\<rparr>"
  have "arg_or_default 768 (SAMHQVisionConfig_args.hidden_size ?a) = 1280"
    and "arg_or_default (float_lit 4) (SAMHQVisionConfig_args.mlp_ratio ?a) = float_lit 4"
    and "SAMHQVisionConfig_args.mlp_dim ?a = None"
    by (simp_all add: SAMHQVisionConfig_no_args_def arg_or_default_def)
  from C4_mlp_dim [OF this(1,2)] this(3) mul_1280_4
  show "\<exists>c. SAMHQVisionConfig_init ?a = Inr c \<and> SAMHQVisionConfig.hidden_size c = 1280 \<and>
        SAMHQVisionConfig.mlp_ratio c = Finite 4 \<and> SAMHQVisionConfig.mlp_dim c = 5120"
    using trunc_of_int [of 5120] by (auto simp add: float_lit_4)
next
  let ?a = "SAMHQVisionConfig_no_args\<lparr>SAMHQVisionConfig_args.hidden_size := Some 768, SAMHQVisionConfig_args.mlp_ratio := Some (Finite 4),
             SAMHQVisionConfig_args.mlp_dim := Some 1000\<rparr>"
  have "arg_or_default 768 (SAMHQVisionConfig_args.hidden_size ?a) = 768"
    and "arg_or_default (float_lit 4) (SAMHQVisionConfig_args.mlp_ratio ?a) = Finite 4"
    and "SAMHQVisionConfig_args.mlp_dim ?a = Some 1000"
    by (simp_all add: arg_or_default_def)
  from C4_mlp_dim [OF this(1,2)] this(3)
  show "\<exists>c. SAMHQVisionConfig_init ?a = Inr c \<and> SAMHQVisionConfig.hidden_size c = 768 \<and>
        SAMHQVisionConfig.mlp_ratio c = Finite 4 \<and> SAMHQVisionConfig.mlp_dim c = 1000"
    by auto
qed

text \<open>
  Claim C5, as stated: without an explicit \<open>mlp_dim\<close> the stored value is
  \<^verbatim>\<open>round(hidden_size * mlp_ratio)\<close>, for all \<open>hidden_size\<close> and \<open>mlp_ratio\<close>. The code refutes
  it at \<open>hidden_size = 3\<close>, \<open>mlp_ratio = 0.5\<close>: the product is \<open>1.5\<close>, the constructor stores
  \<open>1\<close>, and rounding gives \<open>2\<close>.
\<close>

theorem C5_round_counterexample:
  "map_sum id SAMHQVisionConfig.mlp_dim
     (SAMHQVisionConfig_init
        (SAMHQVisionConfig_no_args\<lparr>SAMHQVisionConfig_args.hidden_size := Some 3,
           SAMHQVisionConfig_args.mlp_ratio := Some (float_lit (1 / 2))\<rparr>)) = Inr 1 \<and>
   spec_mlp_dim 3 (float_lit (1 / 2)) = Inr 2"
proof
  let ?a = "SAMHQVisionConfig_no_args\<lparr>SAMHQVisionConfig_args.hidden_size := Some 3,
              SAMHQVisionConfig_args.mlp_ratio := Some (float_lit (1 / 2))\<rparr>"
  have "SAMHQVisionConfig_init ?a = Inr (vision_instance ?a (trunc_toward_zero (3 / 2)))"
    by (rule vision_init_finite)
       (simp_all add: SAMHQVisionConfig_no_args_def arg_or_default_def mul_3_half)
  then show "map_sum id SAMHQVisionConfig.mlp_dim (SAMHQVisionConfig_init ?a) = Inr 1"
    by (simp add: trunc_three_halves)
next
  show "spec_mlp_dim 3 (float_lit (1 / 2)) = Inr 2"
    by (simp add: spec_mlp_dim_def mul_3_half round_three_halves)
qed

text \<open>
  Claim C5, amended: a construction without an explicit \<open>mlp_dim\<close>, with \<open>hidden_size\<close> \<open>H\<close>
  and \<open>mlp_ratio\<close> \<open>R\<close> (each passed or defaulted) whose float product is a finite \<open>q\<close>,
  returns an instance that stores \<open>H\<close>, \<open>R\<close> and the truncation \<^verbatim>\<open>int(H * R)\<close>; the stored
  value equals \<^verbatim>\<open>round(H * R)\<close> exactly when \<open>q\<close> is less than one half away from it, or
  exactly one half away from it with the stored value even.
\<close>

theorem C5_round_agreement:
  assumes "SAMHQVisionConfig_args.mlp_dim a = None"
    and "arg_or_default 768 (SAMHQVisionConfig_args.hidden_size a) = H"
    and "arg_or_default (float_lit 4) (SAMHQVisionConfig_args.mlp_ratio a) = R"
    and "py_mul_int_float H R = Inr (Finite q)"
  shows "\<exists>c. SAMHQVisionConfig_init a = Inr c \<and>
             SAMHQVisionConfig.hidden_size c = H \<and> SAMHQVisionConfig.mlp_ratio c = R \<and>
             py_int (Finite q) = Inr (SAMHQVisionConfig.mlp_dim c) \<and>
             (spec_mlp_dim H R = Inr (SAMHQVisionConfig.mlp_dim c) \<longleftrightarrow>
                \<bar>q - of_int (SAMHQVisionConfig.mlp_dim c)\<bar> < 1 / 2 \<or>
                (\<bar>q - of_int (SAMHQVisionConfig.mlp_dim c)\<bar> = 1 / 2 \<and> even (SAMHQVisionConfig.mlp_dim c)))"
proof -
  let ?c = "vision_instance a (trunc_toward_zero q)"
  from assms have "SAMHQVisionConfig_init a = Inr ?c"
    by (intro vision_init_finite) simp_all
  moreover have "SAMHQVisionConfig.hidden_size ?c = H" "SAMHQVisionConfig.mlp_ratio ?c = R"
    using assms by simp_all
  moreover have "py_int (Finite q) = Inr (SAMHQVisionConfig.mlp_dim ?c)" by simp
  moreover have "spec_mlp_dim H R = Inr (round_half_even q)"
    by (simp add: spec_mlp_dim_def assms(4))
  then have "spec_mlp_dim H R = Inr (SAMHQVisionConfig.mlp_dim ?c) \<longleftrightarrow>
                \<bar>q - of_int (SAMHQVisionConfig.mlp_dim ?c)\<bar> < 1 / 2 \<or>
                (\<bar>q - of_int (SAMHQVisionConfig.mlp_dim ?c)\<bar> = 1 / 2 \<and> even (SAMHQVisionConfig.mlp_dim ?c))"
    using round_half_even_eq_trunc_iff [of q] by simp
  ultimately show ?thesis by blast
qed

theorem C5_round_agreement_witness:
  "(\<exists>c. SAMHQVisionConfig_init SAMHQVisionConfig_no_args = Inr c \<and> SAMHQVisionConfig.hidden_size c = 768 \<and>
        SAMHQVisionConfig.mlp_dim c = 3072 \<and> spec_mlp_dim 768 (float_lit 4) = Inr (SAMHQVisionConfig.mlp_dim c)) \<and>
   (\<exists>c. SAMHQVisionConfig_init
          (SAMHQVisionConfig_no_args\<lparr>SAMHQVisionConfig_args.hidden_size := Some 3,
             SAMHQVisionConfig_args.mlp_ratio := Some (float_lit (1 / 2))\<rparr>) = Inr c \<and>
        SAMHQVisionConfig.hidden_size c = 3 \<and> SAMHQVisionConfig.mlp_dim c = 1 \<and>
        spec_mlp_dim 3 (float_lit (1 / 2)) \<noteq> Inr (SAMHQVisionConfig.mlp_dim c))"
proof (intro conjI)
  have "SAMHQVisionConfig_args.mlp_dim SAMHQVisionConfig_no_args = None"
    and "arg_or_default 768 (SAMHQVisionConfig_args.hidden_size SAMHQVisionConfig_no_args) = 768"
    and "arg_or_default (float_lit 4) (SAMHQVisionConfig_args.mlp_ratio SAMHQVisionConfig_no_args) = float_lit 4"
    by (simp_all add: SAMHQVisionConfig_no_args_def arg_or_default_def)
  from C5_round_agreement [OF this mul_768_4]
  show "\<exists>c. SAMHQVisionConfig_init SAMHQVisionConfig_no_args = Inr c \<and> SAMHQVisionConfig.hidden_size c = 768 \<and>
        SAMHQVisionConfig.mlp_dim c = 3072 \<and> spec_mlp_dim 768 (float_lit 4) = Inr (SAMHQVisionConfig.mlp_dim c)"
    by (auto simp add: trunc_3072)
next
  let ?a = "SAMHQVisionConfig_no_args\<lparr>SAMHQVisionConfig_args.hidden_size := Some 3,
              SAMHQVisionConfig_args.mlp_ratio := Some (float_lit (1 / 2))\<rparr>"
  have "SAMHQVisionConfig_args.mlp_dim ?a = None"
    and "arg_or_default 768 (SAMHQVisionConfig_args.hidden_size ?a) = 3"
    and "arg_or_default (float_lit 4) (SAMHQVisionConfig_args.mlp_ratio ?a) = float_lit (1 / 2)"
    by (simp_all add: SAMHQVisionConfig_no_args_def arg_or_default_def)
  from C5_round_agreement [OF this mul_3_half]
  show "\<exists>c. SAMHQVisionConfig_init ?a = Inr c \<and> SAMHQVisionConfig.hidden_size c = 3 \<and> SAMHQVisionConfig.mlp_dim c = 1 \<and>
        spec_mlp_dim 3 (float_lit (1 / 2)) \<noteq> Inr (SAMHQVisionConfig.mlp_dim c)"
    by (auto simp add: trunc_three_halves)
qed

subsection \<open>The default list of \<open>global_attn_indexes\<close>\<close>

text \<open>
  Claim C9: two instances constructed without an explicit \<open>global_attn_indexes\<close> hold
  independent copies of \<^verbatim>\<open>[2, 5, 8, 11]\<close>, so that mutating the list of one does not affect
  the other's. The code, evaluated: the constructor stores the one default list of its
  signature in both instances, and after two constructions with no argument and an
  \<^verbatim>\<open>append(99)\<close> through the first, the second reads \<^verbatim>\<open>[2, 5, 8, 11, 99]\<close>, where the
  module's default was \<^verbatim>\<open>[2, 5, 8, 11]\<close>.
\<close>

theorem C9_shared_default_list:
  "append_through_first SAMHQVisionConfig_no_args SAMHQVisionConfig_no_args 99
     = Inr (Some [2, 5, 8, 11, 99]) \<and>
   module_store default_global_attn_indexes = Some [2, 5, 8, 11]"
  by (simp add: append_through_first_def vision_default append_default default_list
      no_args_list)

text \<open>
  The same happens between any two constructions that leave the parameter out, whatever
  their other arguments.
\<close>

lemma default_list_shared:
  assumes "SAMHQVisionConfig_args.global_attn_indexes a1 = None"
    and "SAMHQVisionConfig_args.global_attn_indexes a2 = None"
    and "SAMHQVisionConfig_init a1 = Inr c1" and "SAMHQVisionConfig_init a2 = Inr c2"
  shows "SAMHQVisionConfig.global_attn_indexes c1 = default_global_attn_indexes \<and>
         SAMHQVisionConfig.global_attn_indexes c2 = SAMHQVisionConfig.global_attn_indexes c1 \<and>
         module_store (SAMHQVisionConfig.global_attn_indexes c2) = Some [2, 5, 8, 11] \<and>
         append_through_first a1 a2 x = Inr (Some [2, 5, 8, 11, x])"
proof -
  have g: "SAMHQVisionConfig.global_attn_indexes c = default_global_attn_indexes"
    if "SAMHQVisionConfig_args.global_attn_indexes a = None" "SAMHQVisionConfig_init a = Inr c"
    for a c
    using that
    by (auto simp add: vision_init_eq arg_or_default_def split: option.splits sum.splits)
  from assms have "SAMHQVisionConfig.global_attn_indexes c1 = default_global_attn_indexes"
    and "SAMHQVisionConfig.global_attn_indexes c2 = default_global_attn_indexes"
    by (simp_all add: g)
  with assms show ?thesis
    by (simp add: append_through_first_def append_default default_list)
qed

section \<open>Properties of SAMHQMaskDecoderConfig\<close>

lemma mask_init_eq:
  "SAMHQMaskDecoderConfig_init a =
     Inr \<lparr>SAMHQMaskDecoderConfig.base_kwargs = SAMHQMaskDecoderConfig_args.kwargs a,
          SAMHQMaskDecoderConfig.vision_encoder_dim =
            arg_or_default 768 (SAMHQMaskDecoderConfig_args.vision_encoder_dim a),
          SAMHQMaskDecoderConfig.hidden_size =
            arg_or_default 256 (SAMHQMaskDecoderConfig_args.hidden_size a),
          SAMHQMaskDecoderConfig.hidden_act =
            arg_or_default ''relu'' (SAMHQMaskDecoderConfig_args.hidden_act a),
          SAMHQMaskDecoderConfig.mlp_dim =
            arg_or_default 2048 (SAMHQMaskDecoderConfig_args.mlp_dim a),
          SAMHQMaskDecoderConfig.num_hidden_layers =
            arg_or_default 2 (SAMHQMaskDecoderConfig_args.num_hidden_layers a),
          SAMHQMaskDecoderConfig.num_attention_heads =
            arg_or_default 8 (SAMHQMaskDecoderConfig_args.num_attention_heads a),
          SAMHQMaskDecoderConfig.attention_downsam_hqple_rate =
            arg_or_default 2 (SAMHQMaskDecoderConfig_args.attention_downsam_hqple_rate a),
          SAMHQMaskDecoderConfig.num_multimask_outputs =
            arg_or_default 3 (SAMHQMaskDecoderConfig_args.num_multimask_outputs a),
          SAMHQMaskDecoderConfig.iou_head_depth =
            arg_or_default 3 (SAMHQMaskDecoderConfig_args.iou_head_depth a),
          SAMHQMaskDecoderConfig.iou_head_hidden_dim =
            arg_or_default 256 (SAMHQMaskDecoderConfig_args.iou_head_hidden_dim a),
          SAMHQMaskDecoderConfig.layer_norm_eps =
            arg_or_default (float_lit (1 / 1000000))
              (SAMHQMaskDecoderConfig_args.layer_norm_eps a)\<rparr>"
  by (simp add: SAMHQMaskDecoderConfig_init_def PretrainedConfig_init_def Let_def)

lemma mask_returns: "\<exists>m. SAMHQMaskDecoderConfig_init a = Inr m"
  by (simp add: mask_init_eq)

text \<open>
  Claim C2: \<open>SAMHQMaskDecoderConfig\<close> has a field named \<open>attention_downsample_rate\<close>, of
  default \<open>2\<close>, accepted as a constructor argument and stored under that name. The code,
  evaluated: the attributes a construction with no argument assigns are eleven, the rate
  among them under the name \<open>attention_downsam_hqple_rate\<close>, and none is named
  \<open>attention_downsample_rate\<close>; a call that passes \<open>attention_downsample_rate = 4\<close> leaves the
  rate at \<open>2\<close>, and the \<open>4\<close> goes to the base layer with the other extra options.
\<close>

theorem C2_attention_downsample_rate_name:
  "map_sum id SAMHQMaskDecoderConfig_attrs
     (SAMHQMaskDecoderConfig_init SAMHQMaskDecoderConfig_no_args) =
     Inr [(''vision_encoder_dim'', PInt 768),
          (''hidden_size'', PInt 256),
          (''hidden_act'', PStr ''relu''),
          (''mlp_dim'', PInt 2048),
          (''num_hidden_layers'', PInt 2),
          (''num_attention_heads'', PInt 8),
          (''attention_downsam_hqple_rate'', PInt 2),
          (''num_multimask_outputs'', PInt 3),
          (''iou_head_depth'', PInt 3),
          (''iou_head_hidden_dim'', PInt 256),
          (''layer_norm_eps'', PFloat (float_lit (1 / 1000000)))] \<and>
   map_sum id (\<lambda>c. map_of (SAMHQMaskDecoderConfig_attrs c) ''attention_downsample_rate'')
     (SAMHQMaskDecoderConfig_init SAMHQMaskDecoderConfig_no_args) = Inr None \<and>
   map_sum id
     (\<lambda>c. (SAMHQMaskDecoderConfig.attention_downsam_hqple_rate c,
           SAMHQMaskDecoderConfig.base_kwargs c))
     (SAMHQMaskDecoderConfig_init
        (SAMHQMaskDecoderConfig_no_args
           \<lparr>SAMHQMaskDecoderConfig_args.kwargs := [(''attention_downsample_rate'', PInt 4)]\<rparr>))
     = Inr (2, [(''attention_downsample_rate'', PInt 4)])"
  by (simp add: mask_init_eq SAMHQMaskDecoderConfig_attrs_def SAMHQMaskDecoderConfig_no_args_def
      arg_or_default_def)

section \<open>Properties of SAMHQConfig\<close>

lemma vision_round_trip:
  "SAMHQVisionConfig_init (SAMHQVisionConfig_to_dict v) = Inr v"
  by (simp add: vision_init_eq SAMHQVisionConfig_to_dict_def vision_instance_def
      arg_or_default_def)

lemma call_normalized:
  "call_with_mapping init (to_dict_if_instance to_dict (empty_if_none no_args x))
     = init (normalized no_args to_dict x)"
  by (cases x)
     (simp_all add: call_with_mapping_def to_dict_if_instance_def empty_if_none_def
        normalized_def)

lemma config_init_eq:
  "SAMHQConfig_init tv tp tm a =
     (case SAMHQVisionConfig_init
             (normalized SAMHQVisionConfig_no_args tv (SAMHQConfig_args.vision_config a)) of
        Inl e \<Rightarrow> Inl e
      | Inr v \<Rightarrow>
          (case SAMHQPromptEncoderConfig_init
                  (normalized SAMHQPromptEncoderConfig_no_args tp
                     (SAMHQConfig_args.prompt_encoder_config a)) of
             Inl e \<Rightarrow> Inl e
           | Inr p \<Rightarrow>
               (case SAMHQMaskDecoderConfig_init
                       (normalized SAMHQMaskDecoderConfig_no_args tm
                          (SAMHQConfig_args.mask_decoder_config a)) of
                  Inl e \<Rightarrow> Inl e
                | Inr m \<Rightarrow>
                    Inr \<lparr>SAMHQConfig.base_kwargs = SAMHQConfig_args.kwargs a,
                         SAMHQConfig.vision_config = InstanceValue v,
                         SAMHQConfig.prompt_encoder_config = InstanceValue p,
                         SAMHQConfig.mask_decoder_config = InstanceValue m,
                         SAMHQConfig.initializer_range =
                           arg_or_default (float_lit (2 / 100))
                             (SAMHQConfig_args.initializer_range a)\<rparr>)))"
  unfolding SAMHQConfig_init_def Let_def call_normalized PretrainedConfig_init_def
  by (rule refl)

lemma prompt_default:
  "\<exists>p. SAMHQPromptEncoderConfig_init SAMHQPromptEncoderConfig_no_args = Inr p"
  by (simp add: prompt_init_eq SAMHQPromptEncoderConfig_no_args_def arg_or_default_def)

lemma no_args_window_7:
  "SAMHQVisionConfig_init
     (SAMHQVisionConfig_no_args\<lparr>SAMHQVisionConfig_args.window_size := Some 7\<rparr>)
   = Inr (vision_instance
            (SAMHQVisionConfig_no_args\<lparr>SAMHQVisionConfig_args.window_size := Some 7\<rparr>) 3072)"
  using vision_init_finite
    [of "SAMHQVisionConfig_no_args\<lparr>SAMHQVisionConfig_args.window_size := Some 7\<rparr>" 3072]
  by (simp add: SAMHQVisionConfig_no_args_def arg_or_default_def mul_768_4 trunc_3072)



text \<open>
  Claim C7: an instance of \<open>SAMHQVisionConfig\<close> passed as \<open>vision_config\<close> comes back, through
  \<^verbatim>\<open>to_dict\<close> and the constructor, with every field as it was: whenever the construction of
  \<open>SAMHQConfig\<close> returns, its \<open>vision_config\<close> equals the instance passed, and it does return
  when no \<open>prompt_encoder_config\<close> is passed. The witness passes an instance built with
  \<open>window_size = 7\<close>.
\<close>

theorem C7_instance_preserved:
  assumes "SAMHQConfig_args.vision_config a = InstanceValue v"
  shows "(\<forall>c. SAMHQConfig_init SAMHQVisionConfig_to_dict tp tm a = Inr c \<longrightarrow>
              SAMHQConfig.vision_config c = InstanceValue v) \<and>
         (SAMHQConfig_args.prompt_encoder_config a = NoneValue \<longrightarrow>
            (\<exists>c. SAMHQConfig_init SAMHQVisionConfig_to_dict tp tm a = Inr c \<and>
                 SAMHQConfig.vision_config c = InstanceValue v))"
proof -
  obtain p where p: "SAMHQPromptEncoderConfig_init SAMHQPromptEncoderConfig_no_args = Inr p"
    using prompt_default by blast
  obtain m where m: "SAMHQMaskDecoderConfig_init
      (normalized SAMHQMaskDecoderConfig_no_args tm (SAMHQConfig_args.mask_decoder_config a)) = Inr m"
    using mask_returns by blast
  show ?thesis
    using assms p m
    by (auto simp add: config_init_eq normalized_def vision_round_trip split: sum.splits)
qed

theorem C7_instance_preserved_witness:
  "\<exists>w c. SAMHQVisionConfig_init
            (SAMHQVisionConfig_no_args\<lparr>SAMHQVisionConfig_args.window_size := Some 7\<rparr>) = Inr w \<and>
          SAMHQVisionConfig.window_size w = 7 \<and>
          SAMHQConfig_init SAMHQVisionConfig_to_dict
            (\<lambda>i. SAMHQPromptEncoderConfig_no_args) (\<lambda>i. SAMHQMaskDecoderConfig_no_args)
            (SAMHQConfig_no_args\<lparr>SAMHQConfig_args.vision_config := InstanceValue w\<rparr>) = Inr c \<and>
          SAMHQConfig.vision_config c = InstanceValue w"
proof -
  let ?w = "vision_instance
              (SAMHQVisionConfig_no_args\<lparr>SAMHQVisionConfig_args.window_size := Some 7\<rparr>) 3072"
  let ?a = "SAMHQConfig_no_args\<lparr>SAMHQConfig_args.vision_config := InstanceValue ?w\<rparr>"
  have v: "SAMHQConfig_args.vision_config ?a = InstanceValue ?w" by simp
  have n: "SAMHQConfig_args.prompt_encoder_config ?a = NoneValue"
    by (simp add: SAMHQConfig_no_args_def)
  have w7: "SAMHQVisionConfig.window_size ?w = 7"
    by (simp add: arg_or_default_def)
  from C7_instance_preserved [OF v, of "\<lambda>i. SAMHQPromptEncoderConfig_no_args"
      "\<lambda>i. SAMHQMaskDecoderConfig_no_args"] n
  obtain c where "SAMHQConfig_init SAMHQVisionConfig_to_dict
      (\<lambda>i. SAMHQPromptEncoderConfig_no_args) (\<lambda>i. SAMHQMaskDecoderConfig_no_args) ?a = Inr c"
    and "SAMHQConfig.vision_config c = InstanceValue ?w"
    by blast
  with no_args_window_7 w7 show ?thesis by blast
qed

text \<open>
  Claim C8: \<open>SAMHQConfig\<close> constructed with no argument returns, and its three
  sub-configurations are the instances that \<open>SAMHQVisionConfig\<close>,
  \<open>SAMHQPromptEncoderConfig\<close> and \<open>SAMHQMaskDecoderConfig\<close> return when constructed with no
  argument.
\<close>

theorem C8_no_arguments:
  "\<exists>v p m c.
     SAMHQVisionConfig_init SAMHQVisionConfig_no_args = Inr v \<and>
     SAMHQPromptEncoderConfig_init SAMHQPromptEncoderConfig_no_args = Inr p \<and>
     SAMHQMaskDecoderConfig_init SAMHQMaskDecoderConfig_no_args = Inr m \<and>
     SAMHQConfig_init tv tp tm SAMHQConfig_no_args = Inr c \<and>
     SAMHQConfig.vision_config c = InstanceValue v \<and>
     SAMHQConfig.prompt_encoder_config c = InstanceValue p \<and>
     SAMHQConfig.mask_decoder_config c = InstanceValue m"
proof -
  obtain p where p: "SAMHQPromptEncoderConfig_init SAMHQPromptEncoderConfig_no_args = Inr p"
    using prompt_default by blast
  obtain m where m: "SAMHQMaskDecoderConfig_init SAMHQMaskDecoderConfig_no_args = Inr m"
    using mask_returns by blast
  show ?thesis
    using p m vision_default
    by (simp add: config_init_eq normalized_def SAMHQConfig_no_args_def)
qed

end
